theory Spec2Isabelle
  imports Main "HOL-Library.Word" "HOL-Library.Multiset"
begin

section \<open>JavaScript strings\<close>

text \<open>
  A JavaScript string is a sequence of UTF-16 code units. String literals of the source
  are all ASCII and are written through \<open>ascii\<close>.
\<close>

type_synonym jsstring = "16 word list"

definition ascii :: "string \<Rightarrow> jsstring" where
  "ascii s = map of_char s"

text \<open>
  \<open>String.prototype.trim\<close> removes leading and trailing code units that are WhiteSpace or
  LineTerminator in the sense of ECMAScript: TAB, LF, VT, FF, CR, SP, NBSP, U+1680,
  U+2000 to U+200A, U+2028, U+2029, U+202F, U+205F, U+3000 and U+FEFF.
\<close>

definition isWhiteSpace :: "16 word \<Rightarrow> bool" where
  "isWhiteSpace c \<longleftrightarrow>
     c \<in> set [0x0009, 0x000A, 0x000B, 0x000C, 0x000D, 0x0020, 0x00A0, 0x1680,
              0x2028, 0x2029, 0x202F, 0x205F, 0x3000, 0xFEFF]
     \<or> (0x2000 \<le> c \<and> c \<le> 0x200A)"

definition trim :: "jsstring \<Rightarrow> jsstring" where
  "trim s = rev (dropWhile isWhiteSpace (rev (dropWhile isWhiteSpace s)))"

text \<open>\<open>Array.prototype.indexOf\<close>: the first index holding the value, or \<open>-1\<close>.\<close>

fun indexOf :: "'a list \<Rightarrow> 'a \<Rightarrow> int" where
  "indexOf [] v = - 1"
| "indexOf (x # xs) v =
     (if x = v then 0 else (let i = indexOf xs v in if i < 0 then - 1 else i + 1))"

text \<open>
  \<open>Array.prototype.sort\<close> with a comparator is a stable sort: an element goes before the
  first element it does not compare greater than, so equal elements keep their order.
\<close>

fun array_insert :: "('a \<Rightarrow> 'a \<Rightarrow> int) \<Rightarrow> 'a \<Rightarrow> 'a list \<Rightarrow> 'a list" where
  "array_insert cmp x [] = [x]"
| "array_insert cmp x (y # ys) =
     (if cmp x y \<le> 0 then x # y # ys else y # array_insert cmp x ys)"

fun array_sort :: "('a \<Rightarrow> 'a \<Rightarrow> int) \<Rightarrow> 'a list \<Rightarrow> 'a list" where
  "array_sort cmp [] = []"
| "array_sort cmp (x # xs) = array_insert cmp x (array_sort cmp xs)"

text \<open>A thrown \<open>Error\<close> object, with its \<open>message\<close>.\<close>

datatype js_error = Error (message: jsstring)

text \<open>
  \<open>Promise.all\<close>: resolves with all the values, in the order of the promises, when every
  promise resolves, and rejects when one rejects. Which rejection settles first is a matter
  of timing; the model takes the first in list order. Every rejection of \<open>generateImage\<close>
  is the same error (\<open>generateImage_error\<close> below), so the choice is not observable.
\<close>

fun promiseAll :: "(js_error + 'a) list \<Rightarrow> js_error + 'a list" where
  "promiseAll [] = Inr []"
| "promiseAll (Inl e # ps) = Inl e"
| "promiseAll (Inr v # ps) =
     (case promiseAll ps of Inl e \<Rightarrow> Inl e | Inr vs \<Rightarrow> Inr (v # vs))"


section \<open>types.ts\<close>

datatype Tone = Professional | Witty | Urgent

text \<open>The string value of each member of the enum.\<close>

fun toneValue :: "Tone \<Rightarrow> jsstring" where
  "toneValue Professional = ascii ''Professional''"
| "toneValue Witty = ascii ''Witty''"
| "toneValue Urgent = ascii ''Urgent''"

text \<open>
  \<open>SocialPlatform\<close> is a union of three string literals. The type is erased at run time and
  \<open>JSON.parse(...) as PostContent[]\<close> checks nothing, so a platform is a string here and
  the three literals are constants.
\<close>

definition LinkedIn :: jsstring where
  "LinkedIn = ascii ''LinkedIn''"

definition Twitter :: jsstring where
  "Twitter = ascii ''Twitter''"

definition Instagram :: jsstring where
  "Instagram = ascii ''Instagram''"

record PostContent =
  platform :: jsstring
  "text" :: jsstring
  image_prompt :: jsstring

record GenerationResult = PostContent +
  imageUrl :: jsstring

text \<open>\<open>AspectRatio\<close>: the literals \<open>'4:3'\<close>, \<open>'16:9'\<close> and \<open>'1:1'\<close>.\<close>

datatype AspectRatio = Ratio_4_3 | Ratio_16_9 | Ratio_1_1

fun aspectRatioValue :: "AspectRatio \<Rightarrow> jsstring" where
  "aspectRatioValue Ratio_4_3 = ascii ''4:3''"
| "aspectRatioValue Ratio_16_9 = ascii ''16:9''"
| "aspectRatioValue Ratio_1_1 = ascii ''1:1''"


section \<open>services/geminiService.ts\<close>

subsection \<open>Module initialisation\<close>

text \<open>\<open>process.env\<close> maps variable names to strings; an unset variable reads \<open>undefined\<close>.\<close>

type_synonym process_env = "jsstring \<rightharpoonup> jsstring"

record GoogleGenAI =
  apiKey :: jsstring

definition API_KEY :: jsstring where
  "API_KEY = ascii ''API_KEY''"

text \<open>
  The top level of the module: it throws when \<open>process.env.API_KEY\<close> is falsy (unset, or the
  empty string), and otherwise constructs the client \<open>ai\<close> that both exported functions use.
\<close>

definition moduleInit :: "process_env \<Rightarrow> js_error + GoogleGenAI" where
  "moduleInit env =
     (case env API_KEY of
        None \<Rightarrow> Inl (Error (ascii ''API_KEY environment variable is not set''))
      | Some k \<Rightarrow>
          if k = [] then Inl (Error (ascii ''API_KEY environment variable is not set''))
          else Inr \<lparr>apiKey = k\<rparr>)"

subsection \<open>The hosted services\<close>

text \<open>
  The two requests the module sends. The response schema sent with the text request is a
  constant: an array of objects with the required string fields \<open>platform\<close> (one of the
  three platform names), \<open>text\<close> and \<open>image_prompt\<close>; it bounds neither the number of
  items nor how often a platform occurs.
\<close>

record GenerateContentRequest =
  content_model :: jsstring
  contents :: jsstring
  responseMimeType :: jsstring

record GenerateImagesRequest =
  images_model :: jsstring
  prompt :: jsstring
  numberOfImages :: nat
  outputMimeType :: jsstring
  aspectRatio :: AspectRatio

datatype network_call =
  GenerateContentCall GenerateContentRequest
| GenerateImagesCall GenerateImagesRequest

text \<open>
  What awaiting \<open>ai.models.generateContent\<close> can give: the call rejects; or it resolves and
  \<open>response.text\<close> is undefined, so that \<open>trim\<close> throws; or the text is not JSON, so that
  \<open>JSON.parse\<close> throws; or it parses to a value that is not an array, so that \<open>sort\<close> throws;
  or it parses to an array of objects with the three string fields. The text is represented
  by what \<open>JSON.parse(response.text.trim())\<close> makes of it. An array with items of another
  shape is outside the model.
\<close>

datatype content_response =
  ContentRejected
| ContentTextUndefined
| ContentNotJson
| ContentJsonNotArray
| ContentJson "PostContent list"

text \<open>
  The response of \<open>ai.models.generateImages\<close>, with the optional fields of the client
  library: \<open>generatedImages?\<close>, \<open>image?\<close>, \<open>imageBytes?\<close>.
\<close>

record Image =
  imageBytes :: "jsstring option"

record GeneratedImage =
  gen_image :: "Image option"

record GenerateImagesResponse =
  generatedImages :: "GeneratedImage list option"

datatype images_response =
  ImagesRejected
| ImagesResolved GenerateImagesResponse

text \<open>
  The services are outside the program: any behaviour is possible, and the answer to the
  image request of one post may differ from the answer to the same request of another, so
  the image service also sees the position of the request in the batch.
\<close>

record services =
  generateContent :: "GoogleGenAI \<Rightarrow> GenerateContentRequest \<Rightarrow> content_response"
  generateImages :: "GoogleGenAI \<Rightarrow> nat \<Rightarrow> GenerateImagesRequest \<Rightarrow> images_response"

subsection \<open>generateSocialPosts\<close>

definition buildPrompt :: "jsstring \<Rightarrow> Tone \<Rightarrow> jsstring" where
  \<open>buildPrompt idea tone =
     ascii ''\<newline>    Based on the following idea and tone, generate tailored social media posts for LinkedIn, Twitter, and Instagram.\<newline>\<newline>    **Idea:** "''
     @ idea
     @ ascii ''"\<newline>    **Tone:** "''
     @ toneValue tone
     @ ascii ''"\<newline>\<newline>    **Platform-specific Instructions:**\<newline>    - **LinkedIn:** Create a professional, long-form post (2-3 paragraphs) that encourages discussion and engagement.\<newline>    - **Twitter:** Write a short, punchy tweet (under 280 characters) with a clear call-to-action or a thought-provoking question.\<newline>    - **Instagram:** Craft a visually-focused caption. Start with a hook, provide some value, and include 3-5 relevant hashtags at the end.\<newline>\<newline>    For each post, also create a concise, descriptive prompt for an AI image generator that visually captures the essence of the post.\<newline>  ''\<close>

definition contentRequest :: "jsstring \<Rightarrow> Tone \<Rightarrow> GenerateContentRequest" where
  "contentRequest idea tone =
     \<lparr>content_model = ascii ''gemini-2.5-pro'',
      contents = buildPrompt idea tone,
      responseMimeType = ascii ''application/json''\<rparr>"

definition platformOrder :: "jsstring list" where
  "platformOrder = [LinkedIn, Twitter, Instagram]"

definition comparePlatform :: "PostContent \<Rightarrow> PostContent \<Rightarrow> int" where
  "comparePlatform a b =
     indexOf platformOrder (platform a) - indexOf platformOrder (platform b)"

text \<open>The key the comparator orders by.\<close>

definition platformIndex :: "PostContent \<Rightarrow> int" where
  "platformIndex a = indexOf platformOrder (platform a)"

definition contentFailure :: js_error where
  "contentFailure =
     Error (ascii ''Failed to generate content. Please check your input and try again.'')"

text \<open>
  The function returns the requests it sent and either the posts or the error it throws.
  Everything after the request is inside one \<open>try\<close>, whose \<open>catch\<close> logs the error and throws
  the fixed one (the log is not modelled).
\<close>

definition generateSocialPosts ::
    "GoogleGenAI \<Rightarrow> services \<Rightarrow> jsstring \<Rightarrow> Tone \<Rightarrow> network_call list \<times> (js_error + PostContent list)" where
  "generateSocialPosts ai svc idea tone =
     (let request = contentRequest idea tone in
      ([GenerateContentCall request],
       case generateContent svc ai request of
         ContentRejected \<Rightarrow> Inl contentFailure
       | ContentTextUndefined \<Rightarrow> Inl contentFailure
       | ContentNotJson \<Rightarrow> Inl contentFailure
       | ContentJsonNotArray \<Rightarrow> Inl contentFailure
       | ContentJson parsedResponse \<Rightarrow> Inr (array_sort comparePlatform parsedResponse)))"

subsection \<open>generateImage\<close>

definition imagesRequest :: "jsstring \<Rightarrow> AspectRatio \<Rightarrow> GenerateImagesRequest" where
  "imagesRequest p ratio =
     \<lparr>images_model = ascii ''imagen-4.0-generate-001'',
      prompt = ascii ''High-quality, professional photograph style: '' @ p,
      numberOfImages = 1,
      outputMimeType = ascii ''image/jpeg'',
      aspectRatio = ratio\<rparr>"

definition imageFailure :: js_error where
  "imageFailure = Error (ascii ''Failed to generate an image for the post.'')"

text \<open>
  \<open>response.generatedImages[0].image.imageBytes\<close> throws a TypeError, caught like a
  rejection, when \<open>generatedImages\<close> is undefined or empty or the image is undefined;
  undefined bytes are interpolated as the text \<open>undefined\<close>. The natural number is the
  position of the post in the batch.
\<close>

definition generateImage ::
    "GoogleGenAI \<Rightarrow> services \<Rightarrow> nat \<Rightarrow> jsstring \<Rightarrow> AspectRatio \<Rightarrow> network_call list \<times> (js_error + jsstring)" where
  "generateImage ai svc k p ratio =
     (let request = imagesRequest p ratio in
      ([GenerateImagesCall request],
       case generateImages svc ai k request of
         ImagesRejected \<Rightarrow> Inl imageFailure
       | ImagesResolved response \<Rightarrow>
           (case generatedImages response of
              None \<Rightarrow> Inl imageFailure
            | Some [] \<Rightarrow> Inl imageFailure
            | Some (g # _) \<Rightarrow>
                (case gen_image g of
                   None \<Rightarrow> Inl imageFailure
                 | Some img \<Rightarrow>
                     Inr (ascii ''data:image/jpeg;base64,''
                          @ (case imageBytes img of
                               None \<Rightarrow> ascii ''undefined''
                             | Some base64ImageBytes \<Rightarrow> base64ImageBytes))))))"


section \<open>App.tsx\<close>

subsection \<open>ResultCard\<close>

datatype icon = LinkedInIcon | TwitterIcon | InstagramIcon

record platform_config =
  cfg_icon :: icon
  cfg_aspectRatio :: AspectRatio
  cfg_color :: jsstring

text \<open>The table of \<open>ResultCard\<close>; a key that is not in it reads \<open>undefined\<close>.\<close>

definition platformConfig :: "jsstring \<rightharpoonup> platform_config" where
  "platformConfig = map_of
     [(LinkedIn, \<lparr>cfg_icon = LinkedInIcon, cfg_aspectRatio = Ratio_4_3,
                  cfg_color = ascii ''text-blue-400''\<rparr>),
      (Twitter, \<lparr>cfg_icon = TwitterIcon, cfg_aspectRatio = Ratio_16_9,
                 cfg_color = ascii ''text-white''\<rparr>),
      (Instagram, \<lparr>cfg_icon = InstagramIcon, cfg_aspectRatio = Ratio_1_1,
                   cfg_color = ascii ''text-pink-500''\<rparr>)]"

subsection \<open>App\<close>

text \<open>The five state variables of the component.\<close>

record app_state =
  idea :: jsstring
  tone :: Tone
  results :: "GenerationResult list option"
  loading :: bool
  error :: "jsstring option"

definition initialState :: app_state where
  "initialState =
     \<lparr>idea = [], tone = Professional, results = None, loading = False, error = None\<rparr>"

definition getAspectRatioForPlatform :: "jsstring \<Rightarrow> AspectRatio" where
  "getAspectRatioForPlatform p =
     (if p = LinkedIn then Ratio_4_3
      else if p = Twitter then Ratio_16_9
      else if p = Instagram then Ratio_1_1
      else Ratio_1_1)"

text \<open>
  One run of \<open>handleGenerate\<close>: the requests it sent, in order, and the successive states of
  the component, one for each group of updates made between two suspension points. The last
  one is the state the run leaves. No other event is taken to change the state meanwhile
  (the text area and the button are disabled while \<open>loading\<close>).
\<close>

record run =
  calls :: "network_call list"
  renders :: "app_state list"

definition finalState :: "run \<Rightarrow> app_state" where
  "finalState r = last (renders r)"

text \<open>The \<open>catch\<close> and \<open>finally\<close> blocks.\<close>

definition catchFinally :: "app_state \<Rightarrow> js_error \<Rightarrow> app_state" where
  "catchFinally s e =
     s\<lparr>error := Some (if message e = [] then ascii ''An unexpected error occurred.''
                       else message e),
       results := None,
       loading := False\<rparr>"

definition toInitialResult :: "PostContent \<Rightarrow> GenerationResult" where
  "toInitialResult content =
     \<lparr>platform = platform content, text = text content,
      image_prompt = image_prompt content, imageUrl = []\<rparr>"

text \<open>
  \<open>postContents.map(content => generateImage(...))\<close> starts every request before anything
  is awaited: each element is the requests sent and the outcome of the promise.
\<close>

definition imagePromises ::
    "GoogleGenAI \<Rightarrow> services \<Rightarrow> PostContent list \<Rightarrow> (network_call list \<times> (js_error + jsstring)) list" where
  "imagePromises ai svc postContents =
     map (\<lambda>(k, content).
            generateImage ai svc k (image_prompt content)
              (getAspectRatioForPlatform (platform content)))
         (enumerate 0 postContents)"

text \<open>
  \<open>initialResults.map((result, index) => ({...result, imageUrl: imageUrls[index]}))\<close>;
  \<open>imageUrls\<close> is as long as \<open>initialResults\<close> whenever this is reached.
\<close>

definition toFinalResults :: "GenerationResult list \<Rightarrow> jsstring list \<Rightarrow> GenerationResult list" where
  "toFinalResults initialResults imageUrls =
     map (\<lambda>(index, result). result\<lparr>imageUrl := imageUrls ! index\<rparr>)
         (enumerate 0 initialResults)"

definition handleGenerate :: "GoogleGenAI \<Rightarrow> services \<Rightarrow> app_state \<Rightarrow> run" where
  "handleGenerate ai svc st =
     (if trim (idea st) = [] then
        \<lparr>calls = [], renders = [st\<lparr>error := Some (ascii ''Please enter an idea.'')\<rparr>]\<rparr>
      else
        let s1 = st\<lparr>loading := True, error := None, results := None\<rparr>;
            (c1, posts) = generateSocialPosts ai svc (idea st) (tone st)
        in case posts of
             Inl e \<Rightarrow> \<lparr>calls = c1, renders = [s1, catchFinally s1 e]\<rparr>
           | Inr postContents \<Rightarrow>
               (let initialResults = map toInitialResult postContents;
                    s2 = s1\<lparr>results := Some initialResults\<rparr>;
                    promises = imagePromises ai svc postContents;
                    c2 = concat (map fst promises)
                in (case promiseAll (map snd promises) of
                      Inl e \<Rightarrow> \<lparr>calls = c1 @ c2, renders = [s1, s2, catchFinally s2 e]\<rparr>
                    | Inr imageUrls \<Rightarrow>
                        \<lparr>calls = c1 @ c2,
                         renders = [s1, s2,
                           s2\<lparr>results := Some (toFinalResults initialResults imageUrls),
                              loading := False\<rparr>]\<rparr>)))"


section \<open>Scenarios\<close>

text \<open>Concrete clients, service behaviours and component states, for the checks below.\<close>

definition demoClient :: GoogleGenAI where
  "demoClient = \<lparr>apiKey = ascii ''demo-key''\<rparr>"

definition demoPost :: "jsstring \<Rightarrow> PostContent" where
  "demoPost p = \<lparr>platform = p, text = ascii ''Hello'', image_prompt = ascii ''A desk''\<rparr>"

definition demoImage :: images_response where
  "demoImage =
     ImagesResolved
       \<lparr>generatedImages = Some [\<lparr>gen_image = Some \<lparr>imageBytes = Some (ascii ''QUJD'')\<rparr>\<rparr>]\<rparr>"

definition demoState :: app_state where
  "demoState = initialState\<lparr>idea := ascii ''Launch a new productivity app'', tone := Witty\<rparr>"

definition shuffledService :: services where
  "shuffledService =
     \<lparr>generateContent =
        (\<lambda>ai request. ContentJson [demoPost Instagram, demoPost LinkedIn, demoPost Twitter]),
      generateImages = (\<lambda>ai k request. demoImage)\<rparr>"

definition repeatingService :: services where
  "repeatingService =
     \<lparr>generateContent =
        (\<lambda>ai request. ContentJson [demoPost Twitter, demoPost LinkedIn, demoPost Twitter]),
      generateImages = (\<lambda>ai k request. demoImage)\<rparr>"

definition oneImageFails :: services where
  "oneImageFails =
     \<lparr>generateContent =
        (\<lambda>ai request. ContentJson [demoPost Instagram, demoPost LinkedIn, demoPost Twitter]),
      generateImages = (\<lambda>ai k request. if k = 1 then ImagesRejected else demoImage)\<rparr>"

definition unparseableService :: services where
  "unparseableService =
     \<lparr>generateContent = (\<lambda>ai request. ContentNotJson),
      generateImages = (\<lambda>ai k request. demoImage)\<rparr>"

definition previousResult :: GenerationResult where
  "previousResult =
     \<lparr>platform = LinkedIn, text = ascii ''Earlier post'', image_prompt = ascii ''A window'',
      imageUrl = ascii ''data:image/jpeg;base64,QUJD''\<rparr>"

definition staleState :: app_state where
  "staleState = demoState\<lparr>results := Some [previousResult], error := Some (ascii ''Earlier error'')\<rparr>"

definition blankState :: app_state where
  "blankState =
     \<lparr>idea = [0x0020, 0x000A, 0x3000], tone = Urgent, results = Some [previousResult],
      loading = False, error = None\<rparr>"


section \<open>Properties of the library functions\<close>

text \<open>\<open>trim\<close> leaves nothing exactly when every code unit is white space.\<close>

lemma trim_empty_iff: "trim s = [] \<longleftrightarrow> (\<forall>c\<in>set s. isWhiteSpace c)"
proof
  assume "trim s = []"
  then have all: "\<forall>x\<in>set (dropWhile isWhiteSpace s). isWhiteSpace x"
    by (simp add: trim_def dropWhile_eq_Nil_conv)
  have "dropWhile isWhiteSpace s = []"
  proof (rule ccontr)
    assume ne: "dropWhile isWhiteSpace s \<noteq> []"
    then have "\<not> isWhiteSpace (hd (dropWhile isWhiteSpace s))"
      by (rule hd_dropWhile)
    with ne all show False by simp
  qed
  then show "\<forall>c\<in>set s. isWhiteSpace c"
    by (simp add: dropWhile_eq_Nil_conv)
next
  assume "\<forall>c\<in>set s. isWhiteSpace c"
  then show "trim s = []"
    by (auto simp: trim_def dest: set_dropWhileD)
qed

lemma trim_nonblank: "\<not> isWhiteSpace c \<Longrightarrow> trim (c # s) \<noteq> []"
  by (simp add: trim_empty_iff)

text \<open>Sorting with a comparator that subtracts keys is the stable sort by that key.\<close>

lemma array_insert_key: "array_insert (\<lambda>a b. f a - f b) x ys = insort_key f x ys"
  by (induction ys) auto

lemma array_sort_key: "array_sort (\<lambda>a b. f a - f b) xs = sort_key f xs"
  by (induction xs) (auto simp: array_insert_key sort_key_def)

lemma promiseAll_map_Inr: "promiseAll (map Inr vs) = Inr vs"
  by (induction vs) auto

lemma promiseAll_Inl_mem: "promiseAll ps = Inl e \<Longrightarrow> Inl e \<in> set ps"
  by (induction ps rule: promiseAll.induct) (auto split: sum.splits)

lemma promiseAll_rejects: "Inl e \<in> set ps \<Longrightarrow> \<exists>e'. promiseAll ps = Inl e'"
  by (induction ps rule: promiseAll.induct) (auto split: sum.splits)


section \<open>Properties of the services module\<close>

lemma platform_distinct:
  "LinkedIn \<noteq> Twitter" "LinkedIn \<noteq> Instagram" "Twitter \<noteq> Instagram"
  "Twitter \<noteq> LinkedIn" "Instagram \<noteq> LinkedIn" "Instagram \<noteq> Twitter"
  by (simp_all add: LinkedIn_def Twitter_def Instagram_def ascii_def)

lemma platformIndex_simps:
  "indexOf platformOrder LinkedIn = 0"
  "indexOf platformOrder Twitter = 1"
  "indexOf platformOrder Instagram = 2"
  by (simp_all add: platformOrder_def platform_distinct)

lemma platform_of_index:
  assumes "p \<in> set platformOrder"
  shows "(indexOf platformOrder p = 0 \<longrightarrow> p = LinkedIn)
       \<and> (indexOf platformOrder p = 1 \<longrightarrow> p = Twitter)
       \<and> (indexOf platformOrder p = 2 \<longrightarrow> p = Instagram)"
  using assms by (auto simp: platformOrder_def platform_distinct)

lemma array_sort_comparePlatform:
  "array_sort comparePlatform xs = sort_key platformIndex xs"
proof -
  have eq: "comparePlatform = (\<lambda>a b. platformIndex a - platformIndex b)"
    by (intro ext) (simp add: comparePlatform_def platformIndex_def)
  show ?thesis
    unfolding eq by (rule array_sort_key)
qed

text \<open>A sorted list with one entry for each platform has them in the fixed order.\<close>

lemma sorted_permutation_of_order:
  assumes perm: "mset (map platform posts) = mset platformOrder"
    and srt: "sorted (map platformIndex posts)"
  shows "map platform posts = platformOrder"
proof -
  have "mset (map platformIndex posts)
          = image_mset (indexOf platformOrder) (mset (map platform posts))"
    by (simp add: platformIndex_def[abs_def] multiset.map_comp comp_def)
  also have "\<dots> = mset [0, 1, 2]"
    by (simp only: perm) (simp add: platformOrder_def platform_distinct)
  finally have "mset (map platformIndex posts) = mset [0, 1, 2::int]" .
  then have "sort [0, 1, 2::int] = map platformIndex posts"
    using srt by (rule properties_for_sort)
  then have idx: "map platformIndex posts = [0, 1, 2]"
    by simp
  have "set (map platform posts) = set platformOrder"
    using perm by (rule mset_eq_setD)
  then have mem: "platform a \<in> set platformOrder" if "a \<in> set posts" for a
    using that by auto
  from idx obtain a b c where abc: "posts = [a, b, c]"
    by (auto simp: map_eq_Cons_conv)
  with idx have "indexOf platformOrder (platform a) = 0"
    "indexOf platformOrder (platform b) = 1" "indexOf platformOrder (platform c) = 2"
    by (simp_all add: platformIndex_def)
  moreover have "platform a \<in> set platformOrder" "platform b \<in> set platformOrder"
    "platform c \<in> set platformOrder"
    using mem abc by simp_all
  ultimately have "platform a = LinkedIn" "platform b = Twitter" "platform c = Instagram"
    using platform_of_index by blast+
  with abc show ?thesis
    by (simp add: platformOrder_def)
qed

text \<open>Each function throws one error only.\<close>

lemma generateSocialPosts_error:
  "snd (generateSocialPosts ai svc i t) = Inl e \<Longrightarrow> e = contentFailure"
  by (auto simp: generateSocialPosts_def Let_def split: content_response.splits)

lemma generateImage_error:
  "snd (generateImage ai svc k p r) = Inl e \<Longrightarrow> e = imageFailure"
  by (auto simp: generateImage_def Let_def
      split: images_response.splits option.splits list.splits)


section \<open>Properties of handleGenerate\<close>

lemma length_imagePromises: "length (imagePromises ai svc ps) = length ps"
  by (simp add: imagePromises_def)

lemma nth_imagePromises:
  "i < length ps \<Longrightarrow> imagePromises ai svc ps ! i =
     generateImage ai svc i (image_prompt (ps ! i)) (getAspectRatioForPlatform (platform (ps ! i)))"
  by (simp add: imagePromises_def nth_enumerate_eq)

lemma length_toFinalResults: "length (toFinalResults rs urls) = length rs"
  by (simp add: toFinalResults_def)

lemma nth_toFinalResults:
  "i < length rs \<Longrightarrow> toFinalResults rs urls ! i = (rs ! i)\<lparr>imageUrl := urls ! i\<rparr>"
  by (simp add: toFinalResults_def nth_enumerate_eq)

text \<open>The four ways through the function.\<close>

lemma handleGenerate_blank:
  "trim (idea st) = [] \<Longrightarrow>
   handleGenerate ai svc st =
     \<lparr>calls = [], renders = [st\<lparr>error := Some (ascii ''Please enter an idea.'')\<rparr>]\<rparr>"
  by (simp add: handleGenerate_def)

lemma handleGenerate_text_fails:
  assumes "trim (idea st) \<noteq> []"
    and "snd (generateSocialPosts ai svc (idea st) (tone st)) = Inl e"
  shows "finalState (handleGenerate ai svc st) =
           catchFinally (st\<lparr>loading := True, error := None, results := None\<rparr>) e"
  using assms
  by (cases "generateSocialPosts ai svc (idea st) (tone st)")
     (simp add: handleGenerate_def finalState_def Let_def catchFinally_def)

lemma handleGenerate_image_fails:
  assumes "trim (idea st) \<noteq> []"
    and "snd (generateSocialPosts ai svc (idea st) (tone st)) = Inr posts"
    and "promiseAll (map snd (imagePromises ai svc posts)) = Inl e"
  shows "finalState (handleGenerate ai svc st) =
           catchFinally (st\<lparr>loading := True, error := None,
                            results := Some (map toInitialResult posts)\<rparr>) e"
  using assms
  by (cases "generateSocialPosts ai svc (idea st) (tone st)")
     (simp add: handleGenerate_def finalState_def Let_def catchFinally_def)

lemma handleGenerate_complete:
  assumes "trim (idea st) \<noteq> []"
    and "snd (generateSocialPosts ai svc (idea st) (tone st)) = Inr posts"
    and "promiseAll (map snd (imagePromises ai svc posts)) = Inr urls"
  shows "finalState (handleGenerate ai svc st) =
           st\<lparr>loading := False, error := None,
              results := Some (toFinalResults (map toInitialResult posts) urls)\<rparr>"
  using assms
  by (cases "generateSocialPosts ai svc (idea st) (tone st)")
     (simp add: handleGenerate_def finalState_def Let_def catchFinally_def)

text \<open>One rejected image request rejects the batch, with the error of the image generation.\<close>

lemma image_failure_rejects_all:
  assumes "i < length posts"
    and "snd (generateImage ai svc i (image_prompt (posts ! i))
               (getAspectRatioForPlatform (platform (posts ! i)))) = Inl e"
  shows "promiseAll (map snd (imagePromises ai svc posts)) = Inl imageFailure"
proof -
  let ?ps = "map snd (imagePromises ai svc posts)"
  have "?ps ! i = Inl e"
    using assms by (simp add: length_imagePromises nth_imagePromises)
  moreover have "i < length ?ps"
    using assms(1) by (simp add: length_imagePromises)
  ultimately have "Inl e \<in> set ?ps"
    by (metis nth_mem)
  then obtain e' where e': "promiseAll ?ps = Inl e'"
    using promiseAll_rejects by blast
  then have "Inl e' \<in> set ?ps"
    by (rule promiseAll_Inl_mem)
  then obtain j where j: "j < length posts" "?ps ! j = Inl e'"
    by (auto simp: in_set_conv_nth length_imagePromises)
  then have "e' = imageFailure"
    by (simp add: nth_imagePromises length_imagePromises generateImage_error)
  with e' show ?thesis by simp
qed

text \<open>When every image request resolves, the batch resolves with the images in order.\<close>

lemma all_images_resolve:
  assumes "\<forall>i<length posts.
             snd (generateImage ai svc i (image_prompt (posts ! i))
                   (getAspectRatioForPlatform (platform (posts ! i)))) = Inr (urls i)"
  shows "promiseAll (map snd (imagePromises ai svc posts)) = Inr (map urls [0..<length posts])"
proof -
  have "map snd (imagePromises ai svc posts) = map Inr (map urls [0..<length posts])"
    using assms
    by (intro nth_equalityI) (simp_all add: length_imagePromises nth_imagePromises)
  then show ?thesis
    by (simp only: promiseAll_map_Inr)
qed


section \<open>Facts about the scenarios\<close>

lemma demo_idea_valid: "trim (idea demoState) \<noteq> []"
  by (simp add: demoState_def initialState_def ascii_def trim_nonblank isWhiteSpace_def)

lemma stale_idea_valid: "trim (idea staleState) \<noteq> []"
  using demo_idea_valid by (simp add: staleState_def)

lemma blank_idea_is_blank: "\<forall>c\<in>set (idea blankState). isWhiteSpace c"
  by (simp add: blankState_def isWhiteSpace_def)

lemma sort_shuffled:
  "array_sort comparePlatform [demoPost Instagram, demoPost LinkedIn, demoPost Twitter] =
     [demoPost LinkedIn, demoPost Twitter, demoPost Instagram]"
  by (simp add: comparePlatform_def demoPost_def platformIndex_simps)

lemma sort_repeating:
  "array_sort comparePlatform [demoPost Twitter, demoPost LinkedIn, demoPost Twitter] =
     [demoPost LinkedIn, demoPost Twitter, demoPost Twitter]"
  by (simp add: comparePlatform_def demoPost_def platformIndex_simps)

lemma demo_posts_sorted:
  "generateContent svc ai (contentRequest (idea st) (tone st)) =
     ContentJson [demoPost Instagram, demoPost LinkedIn, demoPost Twitter] \<Longrightarrow>
   snd (generateSocialPosts ai svc (idea st) (tone st)) =
     Inr [demoPost LinkedIn, demoPost Twitter, demoPost Instagram]"
  by (simp add: generateSocialPosts_def Let_def sort_shuffled del: array_sort.simps)

lemma middle_image_fails:
  "snd (generateImage demoClient oneImageFails 1
         (image_prompt ([demoPost LinkedIn, demoPost Twitter, demoPost Instagram] ! 1))
         (getAspectRatioForPlatform
            (platform ([demoPost LinkedIn, demoPost Twitter, demoPost Instagram] ! 1))))
     = Inl imageFailure"
  by (simp add: generateImage_def oneImageFails_def)


section \<open>The claims\<close>

subsection \<open>The posts returned by generateSocialPosts\<close>

text \<open>
  C1, as stated, fails: \<open>generateSocialPosts\<close> only sorts what the service returned. When
  the response names Twitter twice and Instagram never, so does the result.
\<close>

theorem generateSocialPosts_not_one_per_platform:
  "trim (ascii ''Launch a new productivity app'') \<noteq> []
   \<and> snd (generateSocialPosts demoClient repeatingService
             (ascii ''Launch a new productivity app'') Witty)
       = Inr [demoPost LinkedIn, demoPost Twitter, demoPost Twitter]
   \<and> map platform [demoPost LinkedIn, demoPost Twitter, demoPost Twitter] \<noteq> platformOrder"
proof -
  have "trim (ascii ''Launch a new productivity app'') \<noteq> []"
    using demo_idea_valid by (simp add: demoState_def initialState_def)
  moreover have "snd (generateSocialPosts demoClient repeatingService
                       (ascii ''Launch a new productivity app'') Witty)
                 = Inr (array_sort comparePlatform
                          [demoPost Twitter, demoPost LinkedIn, demoPost Twitter])"
    by (simp add: generateSocialPosts_def repeatingService_def del: array_sort.simps)
  moreover have "map platform [demoPost LinkedIn, demoPost Twitter, demoPost Twitter]
                 \<noteq> platformOrder"
    by (simp add: demoPost_def platformOrder_def platform_distinct)
  ultimately show ?thesis
    by (simp only: sort_repeating simp_thms)
qed

text \<open>
  C1, amended: when the response parses, \<open>generateSocialPosts\<close> returns the entries of the
  response, each as often as it occurs there, ordered by the position of their platform in
  LinkedIn, Twitter, Instagram, entries of one platform in the order of the response. When
  the response holds exactly one entry for each of the three platforms, in any order, the
  result is three entries with the platforms LinkedIn, Twitter, Instagram in that order.
\<close>

theorem generateSocialPosts_sorts_response:
  assumes "generateContent svc ai (contentRequest i t) = ContentJson parsedResponse"
  shows "\<exists>posts. snd (generateSocialPosts ai svc i t) = Inr posts
           \<and> mset posts = mset parsedResponse
           \<and> sorted (map (\<lambda>a. indexOf platformOrder (platform a)) posts)
           \<and> (\<forall>p. filter (\<lambda>a. platform a = p) posts
                     = filter (\<lambda>a. platform a = p) parsedResponse)
           \<and> (mset (map platform parsedResponse) = mset platformOrder
                \<longrightarrow> map platform posts = platformOrder)"
proof -
  let ?posts = "sort_key platformIndex parsedResponse"
  have out: "snd (generateSocialPosts ai svc i t) = Inr ?posts"
    using assms by (simp add: generateSocialPosts_def Let_def array_sort_comparePlatform)
  have srt: "sorted (map platformIndex ?posts)"
    by (rule sorted_sort_key)
  have stable: "filter (\<lambda>a. platform a = p) ?posts
                  = filter (\<lambda>a. platform a = p) parsedResponse" for p
  proof -
    let ?P = "\<lambda>a. platform a = p"
    let ?K = "\<lambda>a. platformIndex a = indexOf platformOrder p"
    have narrow: "filter ?P xs = filter ?P (filter ?K xs)" for xs
      by (induction xs) (simp_all add: platformIndex_def)
    have "filter ?P ?posts = filter ?P (filter ?K ?posts)"
      by (rule narrow)
    also have "\<dots> = filter ?P (filter ?K parsedResponse)"
      by (simp only: sort_key_stable)
    also have "\<dots> = filter ?P parsedResponse"
      by (rule narrow [symmetric])
    finally show ?thesis .
  qed
  have "mset (map platform parsedResponse) = mset platformOrder \<Longrightarrow>
        map platform ?posts = platformOrder"
    using srt by (intro sorted_permutation_of_order) simp_all
  with out srt stable show ?thesis
    by (simp add: platformIndex_def[abs_def])
qed

theorem generateSocialPosts_sorts_response_witness:
  "\<exists>posts. snd (generateSocialPosts demoClient shuffledService
                     (ascii ''Launch a new productivity app'') Witty) = Inr posts
           \<and> length posts = 3
           \<and> map platform posts = platformOrder"
proof -
  let ?response = "[demoPost Instagram, demoPost LinkedIn, demoPost Twitter]"
  have response: "generateContent shuffledService demoClient
        (contentRequest (ascii ''Launch a new productivity app'') Witty) = ContentJson ?response"
    by (simp add: shuffledService_def)
  have perm: "mset (map platform ?response) = mset platformOrder"
    by (simp add: demoPost_def platformOrder_def)
  from generateSocialPosts_sorts_response [OF response] perm
  obtain posts where out: "snd (generateSocialPosts demoClient shuffledService
        (ascii ''Launch a new productivity app'') Witty) = Inr posts"
    and same: "mset posts = mset ?response" and order: "map platform posts = platformOrder"
    by blast
  from same have "length posts = length ?response"
    by (rule mset_eq_length)
  then have "length posts = 3"
    by simp
  with out order show ?thesis by blast
qed

text \<open>
  C7: when the request to the text service rejects, or the response has no text, or the
  text is not JSON, or it is JSON but no array, \<open>generateSocialPosts\<close> throws the one error
  with the fixed message, and returns no posts.
\<close>

theorem generateSocialPosts_failure_is_generic:
  assumes "generateContent svc ai (contentRequest i t) = response"
    and "response = ContentRejected \<or> response = ContentTextUndefined
       \<or> response = ContentNotJson \<or> response = ContentJsonNotArray"
  shows "snd (generateSocialPosts ai svc i t)
           = Inl (Error (ascii ''Failed to generate content. Please check your input and try again.''))
       \<and> (\<forall>posts. snd (generateSocialPosts ai svc i t) \<noteq> Inr posts)"
  using assms by (auto simp: generateSocialPosts_def Let_def contentFailure_def)

theorem generateSocialPosts_failure_is_generic_witness:
  "snd (generateSocialPosts demoClient unparseableService
         (ascii ''Launch a new productivity app'') Witty)
     = Inl (Error (ascii ''Failed to generate content. Please check your input and try again.''))"
proof -
  have response: "generateContent unparseableService demoClient
        (contentRequest (ascii ''Launch a new productivity app'') Witty) = ContentNotJson"
    by (simp add: unparseableService_def)
  have "ContentNotJson = ContentRejected \<or> ContentNotJson = ContentTextUndefined
        \<or> ContentNotJson = ContentNotJson \<or> ContentNotJson = ContentJsonNotArray"
    by simp
  with response show ?thesis
    by (rule generateSocialPosts_failure_is_generic [THEN conjunct1])
qed

subsection \<open>The image request\<close>

text \<open>
  C5: \<open>getAspectRatioForPlatform\<close> gives 4:3 for LinkedIn, 16:9 for Twitter and 1:1 for
  Instagram; its only argument is the platform. The table of \<open>ResultCard\<close> holds the same
  ratios.
\<close>

theorem aspect_ratio_of_platform:
  "aspectRatioValue (getAspectRatioForPlatform LinkedIn) = ascii ''4:3''
   \<and> aspectRatioValue (getAspectRatioForPlatform Twitter) = ascii ''16:9''
   \<and> aspectRatioValue (getAspectRatioForPlatform Instagram) = ascii ''1:1''
   \<and> map_option cfg_aspectRatio (platformConfig LinkedIn)
       = Some (getAspectRatioForPlatform LinkedIn)
   \<and> map_option cfg_aspectRatio (platformConfig Twitter)
       = Some (getAspectRatioForPlatform Twitter)
   \<and> map_option cfg_aspectRatio (platformConfig Instagram)
       = Some (getAspectRatioForPlatform Instagram)"
  by (simp add: getAspectRatioForPlatform_def platformConfig_def platform_distinct)

text \<open>
  C6: whatever the client, the service, the position in the batch and the aspect ratio,
  \<open>generateImage\<close> sends one request, whose prompt is the given prompt after the fixed
  style prefix; the tone is no argument of the function, and two requests for one prompt
  carry the same text.
\<close>

theorem image_request_wraps_prompt:
  "fst (generateImage ai svc k p ratio) = [GenerateImagesCall (imagesRequest p ratio)]
   \<and> prompt (imagesRequest p ratio) = ascii ''High-quality, professional photograph style: '' @ p
   \<and> prompt (imagesRequest p ratio) = prompt (imagesRequest p ratio')"
  by (simp add: generateImage_def Let_def imagesRequest_def)

subsection \<open>Module initialisation\<close>

text \<open>
  C8: when \<open>API_KEY\<close> is not set in the environment, the top level of the module throws,
  and no client exists for the exported functions to use.
\<close>

theorem missing_api_key_is_fatal:
  assumes "env API_KEY = None"
  shows "moduleInit env = Inl (Error (ascii ''API_KEY environment variable is not set''))
       \<and> (\<forall>ai. moduleInit env \<noteq> Inr ai)"
  using assms by (simp add: moduleInit_def)

theorem missing_api_key_is_fatal_witness:
  "moduleInit Map.empty = Inl (Error (ascii ''API_KEY environment variable is not set''))"
proof -
  have "(Map.empty :: process_env) API_KEY = None"
    by simp
  then show ?thesis
    by (rule missing_api_key_is_fatal [THEN conjunct1])
qed

subsection \<open>handleGenerate: a blank idea\<close>

text \<open>
  C3: when the idea is empty or every code unit of it is white space, \<open>handleGenerate\<close>
  sends no request, whatever the services would answer, and leaves the validation error.
\<close>

theorem blank_idea_sends_nothing:
  assumes "\<forall>c\<in>set (idea st). isWhiteSpace c"
  shows "calls (handleGenerate ai svc st) = []
       \<and> error (finalState (handleGenerate ai svc st)) = Some (ascii ''Please enter an idea.'')
       \<and> handleGenerate ai svc st = handleGenerate ai' svc' st"
proof -
  have "trim (idea st) = []"
    using assms by (simp add: trim_empty_iff)
  then show ?thesis
    by (simp add: handleGenerate_blank finalState_def)
qed

theorem blank_idea_sends_nothing_witness:
  "calls (handleGenerate demoClient shuffledService blankState) = []
   \<and> error (finalState (handleGenerate demoClient shuffledService blankState))
       = Some (ascii ''Please enter an idea.'')
   \<and> handleGenerate demoClient shuffledService blankState
       = handleGenerate demoClient unparseableService blankState"
  by (rule blank_idea_sends_nothing [OF blank_idea_is_blank])

text \<open>
  C10: on such an idea the run has one state update, which sets the error; the results,
  the loading flag, the idea and the tone are those of the state before.
\<close>

theorem blank_idea_changes_error_only:
  assumes "\<forall>c\<in>set (idea st). isWhiteSpace c"
  shows "renders (handleGenerate ai svc st)
           = [st\<lparr>error := Some (ascii ''Please enter an idea.'')\<rparr>]
       \<and> results (finalState (handleGenerate ai svc st)) = results st
       \<and> loading (finalState (handleGenerate ai svc st)) = loading st
       \<and> idea (finalState (handleGenerate ai svc st)) = idea st
       \<and> tone (finalState (handleGenerate ai svc st)) = tone st"
proof -
  have "trim (idea st) = []"
    using assms by (simp add: trim_empty_iff)
  then show ?thesis
    by (simp add: handleGenerate_blank finalState_def)
qed

theorem blank_idea_changes_error_only_witness:
  "results (finalState (handleGenerate demoClient shuffledService blankState))
     = Some [previousResult]
   \<and> loading (finalState (handleGenerate demoClient shuffledService blankState)) = False"
  using blank_idea_changes_error_only [OF blank_idea_is_blank, of demoClient shuffledService]
  by (simp add: blankState_def)

subsection \<open>handleGenerate: failures\<close>

text \<open>
  C2: when the idea is valid and the posts were generated, the failure of the image request
  of any one post leaves no result set at all, the error of the image generation, and
  \<open>loading\<close> off.
\<close>

theorem image_failure_fails_request:
  assumes "trim (idea st) \<noteq> []"
    and "snd (generateSocialPosts ai svc (idea st) (tone st)) = Inr posts"
    and "i < length posts"
    and "snd (generateImage ai svc i (image_prompt (posts ! i))
               (getAspectRatioForPlatform (platform (posts ! i)))) = Inl e"
  shows "results (finalState (handleGenerate ai svc st)) = None
       \<and> error (finalState (handleGenerate ai svc st))
           = Some (ascii ''Failed to generate an image for the post.'')
       \<and> loading (finalState (handleGenerate ai svc st)) = False"
proof -
  have "promiseAll (map snd (imagePromises ai svc posts)) = Inl imageFailure"
    using assms(3,4) by (rule image_failure_rejects_all)
  with assms(1,2) have "finalState (handleGenerate ai svc st) =
      catchFinally (st\<lparr>loading := True, error := None,
                       results := Some (map toInitialResult posts)\<rparr>) imageFailure"
    by (rule handleGenerate_image_fails)
  then show ?thesis
    by (simp add: catchFinally_def imageFailure_def ascii_def)
qed

theorem image_failure_fails_request_witness:
  "results (finalState (handleGenerate demoClient oneImageFails demoState)) = None
   \<and> error (finalState (handleGenerate demoClient oneImageFails demoState))
       = Some (ascii ''Failed to generate an image for the post.'')
   \<and> loading (finalState (handleGenerate demoClient oneImageFails demoState)) = False"
proof -
  have posts: "snd (generateSocialPosts demoClient oneImageFails (idea demoState) (tone demoState))
      = Inr [demoPost LinkedIn, demoPost Twitter, demoPost Instagram]"
    by (rule demo_posts_sorted) (simp add: oneImageFails_def)
  have i: "(1::nat) < length [demoPost LinkedIn, demoPost Twitter, demoPost Instagram]"
    by simp
  show ?thesis
    by (rule image_failure_fails_request [OF demo_idea_valid posts i middle_image_fails])
qed

text \<open>
  C4: when the idea is valid and the text generation fails, or it succeeds and the image
  request of some post fails, the state the run leaves has no results, whatever results
  the state before held, has the error message of the stage that failed, and has
  \<open>loading\<close> off.
\<close>

theorem failure_discards_results:
  assumes "trim (idea st) \<noteq> []"
    and "(\<exists>e. snd (generateSocialPosts ai svc (idea st) (tone st)) = Inl e)
       \<or> (\<exists>posts i e. snd (generateSocialPosts ai svc (idea st) (tone st)) = Inr posts
             \<and> i < length posts
             \<and> snd (generateImage ai svc i (image_prompt (posts ! i))
                      (getAspectRatioForPlatform (platform (posts ! i)))) = Inl e)"
  shows "results (finalState (handleGenerate ai svc st)) = None
       \<and> (error (finalState (handleGenerate ai svc st))
            = Some (ascii ''Failed to generate content. Please check your input and try again.'')
          \<or> error (finalState (handleGenerate ai svc st))
            = Some (ascii ''Failed to generate an image for the post.''))
       \<and> loading (finalState (handleGenerate ai svc st)) = False"
  using assms(2)
proof (elim disjE exE conjE)
  fix e
  assume text_fails: "snd (generateSocialPosts ai svc (idea st) (tone st)) = Inl e"
  then have "e = contentFailure"
    by (rule generateSocialPosts_error)
  moreover have "finalState (handleGenerate ai svc st) =
      catchFinally (st\<lparr>loading := True, error := None, results := None\<rparr>) e"
    using assms(1) text_fails by (rule handleGenerate_text_fails)
  ultimately show ?thesis
    by (simp add: catchFinally_def contentFailure_def ascii_def)
next
  fix posts i e
  assume "snd (generateSocialPosts ai svc (idea st) (tone st)) = Inr posts"
    and "i < length posts"
    and "snd (generateImage ai svc i (image_prompt (posts ! i))
               (getAspectRatioForPlatform (platform (posts ! i)))) = Inl e"
  then have "promiseAll (map snd (imagePromises ai svc posts)) = Inl imageFailure"
    and posts: "snd (generateSocialPosts ai svc (idea st) (tone st)) = Inr posts"
    by (simp_all add: image_failure_rejects_all)
  with assms(1) have "finalState (handleGenerate ai svc st) =
      catchFinally (st\<lparr>loading := True, error := None,
                       results := Some (map toInitialResult posts)\<rparr>) imageFailure"
    by (intro handleGenerate_image_fails)
  then show ?thesis
    by (simp add: catchFinally_def imageFailure_def ascii_def)
qed

theorem failure_discards_results_witness:
  "results staleState = Some [previousResult]
   \<and> results (finalState (handleGenerate demoClient unparseableService staleState)) = None
   \<and> loading (finalState (handleGenerate demoClient unparseableService staleState)) = False
   \<and> results (finalState (handleGenerate demoClient oneImageFails staleState)) = None
   \<and> loading (finalState (handleGenerate demoClient oneImageFails staleState)) = False"
proof -
  have text_fails: "\<exists>e. snd (generateSocialPosts demoClient unparseableService
                          (idea staleState) (tone staleState)) = Inl e"
    by (simp add: generateSocialPosts_def unparseableService_def)
  have posts: "snd (generateSocialPosts demoClient oneImageFails (idea staleState) (tone staleState))
      = Inr [demoPost LinkedIn, demoPost Twitter, demoPost Instagram]"
    by (rule demo_posts_sorted) (simp add: oneImageFails_def)
  have image_fails: "\<exists>posts i e.
      snd (generateSocialPosts demoClient oneImageFails (idea staleState) (tone staleState)) = Inr posts
      \<and> i < length posts
      \<and> snd (generateImage demoClient oneImageFails i (image_prompt (posts ! i))
               (getAspectRatioForPlatform (platform (posts ! i)))) = Inl e"
    using posts middle_image_fails
    by (intro exI [of _ "[demoPost LinkedIn, demoPost Twitter, demoPost Instagram]"]
        exI [of _ "1::nat"] exI [of _ imageFailure]) simp
  have "results staleState = Some [previousResult]"
    by (simp add: staleState_def)
  with failure_discards_results [OF stale_idea_valid disjI1, OF text_fails]
    failure_discards_results [OF stale_idea_valid disjI2, OF image_fails]
  show ?thesis by simp
qed

subsection \<open>handleGenerate: success\<close>

text \<open>
  C9: when the idea is valid, the posts were generated and the image request of every post
  resolves, the state the run leaves holds one result for each post, in the order of the
  posts: the platform, text and image prompt of the post, with the image generated from
  that post's prompt at the aspect ratio of its platform.
\<close>

theorem final_results_follow_posts:
  assumes "trim (idea st) \<noteq> []"
    and "snd (generateSocialPosts ai svc (idea st) (tone st)) = Inr posts"
    and "\<forall>i<length posts.
           snd (generateImage ai svc i (image_prompt (posts ! i))
                 (getAspectRatioForPlatform (platform (posts ! i)))) = Inr (urls i)"
  shows "\<exists>finalResults.
           results (finalState (handleGenerate ai svc st)) = Some finalResults
         \<and> length finalResults = length posts
         \<and> (\<forall>i<length posts.
               finalResults ! i =
                 \<lparr>platform = platform (posts ! i), text = text (posts ! i),
                  image_prompt = image_prompt (posts ! i), imageUrl = urls i\<rparr>)"
proof -
  let ?urls = "map urls [0..<length posts]"
  let ?final = "toFinalResults (map toInitialResult posts) ?urls"
  have "promiseAll (map snd (imagePromises ai svc posts)) = Inr ?urls"
    using assms(3) by (rule all_images_resolve)
  with assms(1,2) have "finalState (handleGenerate ai svc st) =
      st\<lparr>loading := False, error := None, results := Some ?final\<rparr>"
    by (rule handleGenerate_complete)
  then have "results (finalState (handleGenerate ai svc st)) = Some ?final"
    by simp
  moreover have "length ?final = length posts"
    by (simp add: length_toFinalResults)
  moreover have "?final ! i =
      \<lparr>platform = platform (posts ! i), text = text (posts ! i),
       image_prompt = image_prompt (posts ! i), imageUrl = urls i\<rparr>" if "i < length posts" for i
    using that by (simp add: nth_toFinalResults toInitialResult_def)
  ultimately show ?thesis by blast
qed

theorem final_results_follow_posts_witness:
  "\<exists>finalResults.
     results (finalState (handleGenerate demoClient shuffledService demoState)) = Some finalResults
     \<and> length finalResults = 3
     \<and> finalResults ! 0 =
         \<lparr>platform = LinkedIn, text = ascii ''Hello'', image_prompt = ascii ''A desk'',
          imageUrl = ascii ''data:image/jpeg;base64,QUJD''\<rparr>
     \<and> finalResults ! 2 =
         \<lparr>platform = Instagram, text = ascii ''Hello'', image_prompt = ascii ''A desk'',
          imageUrl = ascii ''data:image/jpeg;base64,QUJD''\<rparr>"
proof -
  let ?posts = "[demoPost LinkedIn, demoPost Twitter, demoPost Instagram]"
  have posts: "snd (generateSocialPosts demoClient shuffledService (idea demoState) (tone demoState))
      = Inr ?posts"
    by (rule demo_posts_sorted) (simp add: shuffledService_def)
  have images: "\<forall>i<length ?posts.
      snd (generateImage demoClient shuffledService i (image_prompt (?posts ! i))
            (getAspectRatioForPlatform (platform (?posts ! i))))
        = Inr (ascii ''data:image/jpeg;base64,QUJD'')"
    by (simp add: generateImage_def shuffledService_def demoImage_def ascii_def)
  from final_results_follow_posts [OF demo_idea_valid posts images]
  obtain finalResults where
    "results (finalState (handleGenerate demoClient shuffledService demoState)) = Some finalResults"
    and "length finalResults = length ?posts"
    and every: "\<forall>i<length ?posts. finalResults ! i =
        \<lparr>platform = platform (?posts ! i), text = text (?posts ! i),
         image_prompt = image_prompt (?posts ! i),
         imageUrl = ascii ''data:image/jpeg;base64,QUJD''\<rparr>"
    by blast
  moreover from every have "finalResults ! 0 =
      \<lparr>platform = LinkedIn, text = ascii ''Hello'', image_prompt = ascii ''A desk'',
       imageUrl = ascii ''data:image/jpeg;base64,QUJD''\<rparr>"
    by (simp add: demoPost_def)
  moreover from every have "finalResults ! 2 =
      \<lparr>platform = Instagram, text = ascii ''Hello'', image_prompt = ascii ''A desk'',
       imageUrl = ascii ''data:image/jpeg;base64,QUJD''\<rparr>"
    by (simp add: demoPost_def)
  ultimately show ?thesis by simp
qed

end
